theory Spec2Isabelle
  imports Main
begin

section \<open>The fixture writer \<^verbatim>\<open>backend/create_dummy_users_xlsx.py\<close>\<close>

text \<open>
  The script is a straight line of library calls: build a workbook, rename its active
  sheet, append a header row and four literal rows, save under a fixed name, print one
  line. The model keeps that order, one definition per statement.
\<close>

subsection \<open>Cells, sheets and workbooks\<close>

text \<open>
  A Python value placed in a cell keeps its type: an \<^verbatim>\<open>int\<close> is a numeric cell,
  a \<^verbatim>\<open>str\<close> a string cell, a \<^verbatim>\<open>bool\<close> a boolean cell.
\<close>

datatype cell = is_num: NumCell int | is_str: StrCell string | is_bool: BoolCell bool

record worksheet =
  title :: string
  sheet_rows :: "cell list list"

text \<open>
  A workbook owns its sheets; \<^verbatim>\<open>wb.active\<close> is a reference to one of them,
  modelled as its position in the workbook, so that what is done through \<^verbatim>\<open>ws\<close>
  is seen through \<^verbatim>\<open>wb\<close> when it is saved.
\<close>

record workbook =
  worksheets :: "worksheet list"
  active_index :: nat

definition Workbook :: workbook where
  "Workbook = \<lparr>worksheets = [\<lparr>title = ''Sheet'', sheet_rows = []\<rparr>], active_index = 0\<rparr>"

definition active :: "workbook \<Rightarrow> nat" where
  "active b = active_index b"

definition set_title :: "nat \<Rightarrow> string \<Rightarrow> workbook \<Rightarrow> workbook" where
  "set_title r t b =
     (if r < length (worksheets b)
      then b\<lparr>worksheets := (worksheets b)[r := (worksheets b ! r)\<lparr>title := t\<rparr>]\<rparr>
      else b)"

text \<open>\<^verbatim>\<open>ws.append(row)\<close> puts the row below the last row of the sheet.\<close>

definition sheet_append :: "nat \<Rightarrow> cell list \<Rightarrow> workbook \<Rightarrow> workbook" where
  "sheet_append r row b =
     (if r < length (worksheets b)
      then b\<lparr>worksheets :=
              (worksheets b)[r := (worksheets b ! r)\<lparr>sheet_rows := sheet_rows (worksheets b ! r) @ [row]\<rparr>]\<rparr>
      else b)"

text \<open>Rows of a sheet are numbered from 1, as the spreadsheet numbers them.\<close>

definition sheet_row :: "worksheet \<Rightarrow> nat \<Rightarrow> cell list option" where
  "sheet_row s n =
     (if 1 \<le> n \<and> n \<le> length (sheet_rows s) then Some (sheet_rows s ! (n - 1)) else None)"

subsection \<open>The world outside the script\<close>

datatype os_error = PermissionError | DiskFull | OSError string

text \<open>
  A file of the working directory holds a workbook, or it is damaged: cut short, empty or
  otherwise not a workbook any more.
\<close>

datatype stored = Book workbook | Damaged

text \<open>
  What an invocation finds: its arguments, its environment variables, the files of the
  working directory and, for every path, the error the operating system answers to a write
  there, if any. \<^verbatim>\<open>wb.save\<close> opens its target for writing, which empties it, before it
  writes, so a write that fails may leave the earlier file, none, or a damaged one:
  \<open>write_leaves\<close> is what it leaves at the path, and nothing is assumed about it.
\<close>

record world =
  argv :: "string list"
  environ :: "(string \<times> string) list"
  files :: "string \<rightharpoonup> stored"
  write_error :: "string \<Rightarrow> os_error option"
  write_leaves :: "string \<Rightarrow> stored option"

datatype event = Appended "cell list" | SaveCalled string | Saved string | Printed string

text \<open>
  The interpreter's state: the variables \<^verbatim>\<open>wb\<close> and \<^verbatim>\<open>ws\<close>, the files, the
  lines written to standard output, and a record of the calls made, oldest first.
\<close>

record machine =
  wb :: workbook
  ws :: nat
  disk :: "string \<rightharpoonup> stored"
  stdout :: "string list"
  events :: "event list"

subsection \<open>The statements\<close>

definition header :: "cell list" where
  "header = map StrCell [''pk'', ''id'', ''name'', ''email'', ''password'', ''created_at'',
                          ''onboarding_complete'', ''onboarding_data'']"

definition rows :: "cell list list" where
  \<open>rows = [
    [NumCell 1, StrCell ''1'', StrCell ''John Doe'', StrCell ''john@example.com'',
     StrCell ''Password123'', StrCell ''2023-01-01T10:00:00Z'', BoolCell True,
     StrCell ''{"step1":true,"step2":true}''],
    [NumCell 2, StrCell ''2'', StrCell ''Jane Smith'', StrCell ''jane@example.com'',
     StrCell ''Password456'', StrCell ''2023-02-15T12:30:00Z'', BoolCell False,
     StrCell ''{"step1":true,"step2":false}''],
    [NumCell 3, StrCell ''3'', StrCell ''Test User'', StrCell ''testuser@example.com'',
     StrCell ''TestPass789'', StrCell ''2023-03-10T09:15:00Z'', BoolCell True,
     StrCell ''{"step1":true,"step2":true}''],
    [NumCell 4, StrCell ''4'', StrCell ''Demo User'', StrCell ''demo@example.com'',
     StrCell ''DemoPass321'', StrCell ''2023-04-20T14:45:00Z'', BoolCell False,
     StrCell ''{"step1":false,"step2":false}'']]\<close>

definition init :: "world \<Rightarrow> machine" where
  "init w = \<lparr>wb = Workbook, ws = active Workbook, disk = files w, stdout = [], events = []\<rparr>"

definition ws_set_title :: "string \<Rightarrow> machine \<Rightarrow> machine" where
  "ws_set_title t m = m\<lparr>wb := set_title (ws m) t (wb m)\<rparr>"

definition ws_append :: "cell list \<Rightarrow> machine \<Rightarrow> machine" where
  "ws_append row m = m\<lparr>wb := sheet_append (ws m) row (wb m), events := events m @ [Appended row]\<rparr>"

text \<open>\<^verbatim>\<open>for row in rows: ws.append(row)\<close>\<close>

fun for_rows :: "cell list list \<Rightarrow> machine \<Rightarrow> machine" where
  "for_rows [] m = m"
| "for_rows (row # rest) m = for_rows rest (ws_append row m)"

text \<open>
  \<^verbatim>\<open>wb.save(path)\<close> either raises the error of the write, with at the path whatever
  the failed write leaves there, or puts the workbook at the path, over whatever was there.
  Files at other paths are not touched.
\<close>

definition save :: "world \<Rightarrow> string \<Rightarrow> machine \<Rightarrow> os_error \<times> machine + machine" where
  "save w path m =
     (case write_error w path of
        Some e \<Rightarrow> Inl (e, m\<lparr>disk := (disk m)(path := write_leaves w path),
                            events := events m @ [SaveCalled path]\<rparr>)
      | None \<Rightarrow> Inr (m\<lparr>disk := (disk m)(path \<mapsto> Book (wb m)),
                         events := events m @ [SaveCalled path, Saved path]\<rparr>))"

definition print :: "string \<Rightarrow> machine \<Rightarrow> machine" where
  "print line m = m\<lparr>stdout := stdout m @ [line], events := events m @ [Printed line]\<rparr>"

subsection \<open>The script\<close>

text \<open>The workbook as it stands when \<^verbatim>\<open>wb.save\<close> is called (lines 5 to 23).\<close>

definition build :: "world \<Rightarrow> machine" where
  "build w = for_rows rows (ws_append header (ws_set_title ''Users'' (init w)))"

text \<open>
  The whole module. No statement is inside a \<^verbatim>\<open>try\<close>, so an error raised by
  \<^verbatim>\<open>wb.save\<close> ends the run there, with the state of that moment.
\<close>

definition main :: "world \<Rightarrow> os_error \<times> machine + machine" where
  "main w =
     (case save w ''dummy_users.xlsx'' (build w) of
        Inl failure \<Rightarrow> Inl failure
      | Inr m \<Rightarrow> Inr (print ''dummy_users.xlsx created.'' m))"

text \<open>The interpreter exits with 1 on an uncaught exception and with 0 at the end of the module.\<close>

definition exit_status :: "os_error \<times> machine + machine \<Rightarrow> nat" where
  "exit_status r = (case r of Inl _ \<Rightarrow> 1 | Inr _ \<Rightarrow> 0)"

definition final :: "os_error \<times> machine + machine \<Rightarrow> machine" where
  "final r = (case r of Inl (e, m) \<Rightarrow> m | Inr m \<Rightarrow> m)"

definition succeeds :: "world \<Rightarrow> bool" where
  "succeeds w = (case main w of Inl _ \<Rightarrow> False | Inr _ \<Rightarrow> True)"

text \<open>The workbook in the output file after a run, when the file is there and holds one.\<close>

definition output_file :: "world \<Rightarrow> workbook option" where
  "output_file w =
     (case disk (final (main w)) ''dummy_users.xlsx'' of
        Some (Book b) \<Rightarrow> Some b
      | _ \<Rightarrow> None)"

text \<open>A world with nothing in it and no write refused.\<close>

definition clean_world :: world where
  "clean_world = \<lparr>argv = [], environ = [], files = Map.empty, write_error = (\<lambda>p. None),
                   write_leaves = (\<lambda>p. None)\<rparr>"

text \<open>A world where the working directory refuses the write.\<close>

definition readonly_world :: world where
  "readonly_world = \<lparr>argv = [], environ = [], files = Map.empty,
                      write_error = (\<lambda>p. Some PermissionError), write_leaves = (\<lambda>p. None)\<rparr>"

text \<open>
  A world where an earlier run has left its file and the disk fills up during the write,
  which leaves the file cut short.
\<close>

definition full_disk_world :: world where
  "full_disk_world = \<lparr>argv = [], environ = [],
                       files = [''dummy_users.xlsx'' \<mapsto> Book Workbook],
                       write_error = (\<lambda>p. Some DiskFull),
                       write_leaves = (\<lambda>p. Some Damaged)\<rparr>"


text \<open>The workbook's only sheet, when it has exactly one.\<close>

definition the_sheet :: "workbook \<Rightarrow> worksheet option" where
  "the_sheet b = (case worksheets b of [s] \<Rightarrow> Some s | _ \<Rightarrow> None)"

definition output_sheet :: "world \<Rightarrow> worksheet option" where
  "output_sheet w = Option.bind (output_file w) the_sheet"

definition output_row :: "world \<Rightarrow> nat \<Rightarrow> cell list option" where
  "output_row w n = Option.bind (output_sheet w) (\<lambda>s. sheet_row s n)"

text \<open>The world a second invocation finds: the same, with the files the first one left.\<close>

definition after :: "world \<Rightarrow> world" where
  "after w = w\<lparr>files := disk (final (main w))\<rparr>"

subsection \<open>Reading the rows\<close>

text \<open>The cell of a row under a column name, the names being those of the header.\<close>

definition column_names :: "string list" where
  "column_names = [''pk'', ''id'', ''name'', ''email'', ''password'', ''created_at'',
                   ''onboarding_complete'', ''onboarding_data'']"

definition row_field :: "string \<Rightarrow> cell list \<Rightarrow> cell option" where
  "row_field name r = map_of (zip column_names r) name"

text \<open>Python's \<^verbatim>\<open>str\<close> of an integer: decimal digits, a minus sign before a negative one.\<close>

definition digit_char :: "nat \<Rightarrow> char" where
  "digit_char d = ''0123456789'' ! d"

fun digits :: "nat \<Rightarrow> string" where
  "digits n = (if n < 10 then [digit_char n] else digits (n div 10) @ [digit_char (n mod 10)])"

declare digits.simps [simp del]

definition str_int :: "int \<Rightarrow> string" where
  "str_int i = (if i < 0 then CHR ''-'' # digits (nat (- i)) else digits (nat i))"

text \<open>Python's \<^verbatim>\<open>sub in s\<close> and \<^verbatim>\<open>s.endswith(suf)\<close> on strings.\<close>

fun contains :: "string \<Rightarrow> string \<Rightarrow> bool" where
  "contains [] sub = (sub = [])"
| "contains (c # cs) sub = (take (length sub) (c # cs) = sub \<or> contains cs sub)"

definition endswith :: "string \<Rightarrow> string \<Rightarrow> bool" where
  "endswith s suf = (length suf \<le> length s \<and> drop (length s - length suf) s = suf)"

text \<open>
  Every line printed comes after a completed save: \<open>saved\<close> tells whether one has been
  seen so far.
\<close>

fun prints_follow_save :: "bool \<Rightarrow> event list \<Rightarrow> bool" where
  "prints_follow_save saved [] = True"
| "prints_follow_save saved (Printed l # es) = (saved \<and> prints_follow_save saved es)"
| "prints_follow_save saved (Saved p # es) = prints_follow_save True es"
| "prints_follow_save saved (Appended r # es) = prints_follow_save saved es"
| "prints_follow_save saved (SaveCalled p # es) = prints_follow_save saved es"

fun save_calls :: "event list \<Rightarrow> string list" where
  "save_calls [] = []"
| "save_calls (SaveCalled p # es) = p # save_calls es"
| "save_calls (Appended r # es) = save_calls es"
| "save_calls (Saved p # es) = save_calls es"
| "save_calls (Printed l # es) = save_calls es"

fun appended_rows :: "event list \<Rightarrow> cell list list" where
  "appended_rows [] = []"
| "appended_rows (Appended r # es) = r # appended_rows es"
| "appended_rows (SaveCalled p # es) = appended_rows es"
| "appended_rows (Saved p # es) = appended_rows es"
| "appended_rows (Printed l # es) = appended_rows es"

subsection \<open>JSON text\<close>

text \<open>
  A reader for JSON text, used to say what the \<^verbatim>\<open>onboarding_data\<close> strings hold. It
  accepts objects, arrays, strings without escapes, integers and the three literals,
  with white space between tokens; whatever it accepts is JSON.
\<close>

datatype json = JNull | JBool bool | JNum int | JStr string | JArr "json list"
  | JObj "(string \<times> json) list"

datatype token = LBrace | RBrace | LBrack | RBrack | Colon | Comma
  | TStr string | TWord string

datatype lexmode = Top | InString string | InWord string

definition is_space :: "char \<Rightarrow> bool" where
  "is_space c = (c = CHR '' '' \<or> c = CHR 0x09 \<or> c = CHR 0x0A \<or> c = CHR 0x0D)"

definition punct :: "char \<Rightarrow> token option" where
  "punct c = map_of [(CHR ''{'', LBrace), (CHR ''}'', RBrace), (CHR ''['', LBrack),
                     (CHR '']'', RBrack), (CHR '':'', Colon), (CHR '','', Comma)] c"

definition is_word_char :: "char \<Rightarrow> bool" where
  "is_word_char c = (c \<in> set ''abcdefghijklmnopqrstuvwxyz0123456789-'')"

fun lex :: "lexmode \<Rightarrow> string \<Rightarrow> token list option" where
  "lex Top [] = Some []"
| "lex (InString acc) [] = None"
| "lex (InWord acc) [] = Some [TWord (rev acc)]"
| "lex Top (c # cs) =
     (if is_space c then lex Top cs
      else if c = CHR 0x22 then lex (InString []) cs
      else if is_word_char c then lex (InWord [c]) cs
      else case punct c of
             Some p \<Rightarrow> map_option ((#) p) (lex Top cs)
           | None \<Rightarrow> None)"
| "lex (InString acc) (c # cs) =
     (if c = CHR 0x22 then map_option ((#) (TStr (rev acc))) (lex Top cs)
      else if c = CHR 0x5C \<or> of_char c < (32::nat) then None
      else lex (InString (c # acc)) cs)"
| "lex (InWord acc) (c # cs) =
     (if is_word_char c then lex (InWord (c # acc)) cs
      else if is_space c then map_option ((#) (TWord (rev acc))) (lex Top cs)
      else case punct c of
             Some p \<Rightarrow> map_option (\<lambda>ts. TWord (rev acc) # p # ts) (lex Top cs)
           | None \<Rightarrow> None)"

definition digit_val :: "char \<Rightarrow> nat option" where
  "digit_val c = map_of (zip ''0123456789'' [0..<10]) c"

fun nat_of_digits :: "nat \<Rightarrow> string \<Rightarrow> nat option" where
  "nat_of_digits acc [] = Some acc"
| "nat_of_digits acc (c # cs) =
     (case digit_val c of None \<Rightarrow> None | Some d \<Rightarrow> nat_of_digits (10 * acc + d) cs)"

definition unsigned :: "string \<Rightarrow> nat option" where
  "unsigned s = (if s = [] \<or> (hd s = CHR ''0'' \<and> tl s \<noteq> []) then None else nat_of_digits 0 s)"

definition word_value :: "string \<Rightarrow> json option" where
  "word_value s =
     (if s = ''true'' then Some (JBool True)
      else if s = ''false'' then Some (JBool False)
      else if s = ''null'' then Some JNull
      else case s of
             [] \<Rightarrow> None
           | c # cs \<Rightarrow> if c = CHR ''-'' then map_option (\<lambda>n. JNum (- int n)) (unsigned cs)
                       else map_option (\<lambda>n. JNum (int n)) (unsigned s))"

fun parse_value :: "nat \<Rightarrow> token list \<Rightarrow> (json \<times> token list) option"
and parse_members :: "nat \<Rightarrow> token list \<Rightarrow> ((string \<times> json) list \<times> token list) option"
and parse_elements :: "nat \<Rightarrow> token list \<Rightarrow> (json list \<times> token list) option" where
  "parse_value 0 ts = None"
| "parse_value (Suc n) ts =
     (case ts of
        TStr s # r \<Rightarrow> Some (JStr s, r)
      | TWord s # r \<Rightarrow> map_option (\<lambda>v. (v, r)) (word_value s)
      | LBrace # RBrace # r \<Rightarrow> Some (JObj [], r)
      | LBrace # r \<Rightarrow> map_option (\<lambda>(kvs, r'). (JObj kvs, r')) (parse_members n r)
      | LBrack # RBrack # r \<Rightarrow> Some (JArr [], r)
      | LBrack # r \<Rightarrow> map_option (\<lambda>(vs, r'). (JArr vs, r')) (parse_elements n r)
      | _ \<Rightarrow> None)"
| "parse_members 0 ts = None"
| "parse_members (Suc n) ts =
     (case ts of
        TStr k # Colon # r \<Rightarrow>
          (case parse_value n r of
             Some (v, RBrace # r') \<Rightarrow> Some ([(k, v)], r')
           | Some (v, Comma # r') \<Rightarrow>
               map_option (\<lambda>(kvs, r''). ((k, v) # kvs, r'')) (parse_members n r')
           | _ \<Rightarrow> None)
      | _ \<Rightarrow> None)"
| "parse_elements 0 ts = None"
| "parse_elements (Suc n) ts =
     (case parse_value n ts of
        Some (v, RBrack # r') \<Rightarrow> Some ([v], r')
      | Some (v, Comma # r') \<Rightarrow> map_option (\<lambda>(vs, r''). (v # vs, r'')) (parse_elements n r')
      | _ \<Rightarrow> None)"

definition json_loads :: "string \<Rightarrow> json option" where
  "json_loads s =
     (case lex Top s of
        None \<Rightarrow> None
      | Some ts \<Rightarrow> (case parse_value (Suc (length ts)) ts of
                     Some (v, []) \<Rightarrow> Some v
                   | _ \<Rightarrow> None))"

text \<open>
  The two steps of an onboarding object: it has the keys \<^verbatim>\<open>step1\<close> and
  \<^verbatim>\<open>step2\<close> and no other, both with a boolean value.
\<close>

definition steps_of :: "string \<Rightarrow> (bool \<times> bool) option" where
  "steps_of s =
     (case json_loads s of
        Some (JObj kvs) \<Rightarrow>
          (if length kvs = 2
           then (case (map_of kvs ''step1'', map_of kvs ''step2'') of
                   (Some (JBool a), Some (JBool b)) \<Rightarrow> Some (a, b)
                 | _ \<Rightarrow> None)
           else None)
      | _ \<Rightarrow> None)"

definition flag_matches_steps :: "cell list \<Rightarrow> bool" where
  "flag_matches_steps r =
     (case (row_field ''onboarding_complete'' r, row_field ''onboarding_data'' r) of
        (Some (BoolCell c), Some (StrCell d)) \<Rightarrow>
          (case steps_of d of Some (a, b) \<Rightarrow> c = (a \<and> b) | None \<Rightarrow> False)
      | _ \<Rightarrow> False)"

definition well_formed_row :: "cell list \<Rightarrow> bool" where
  "well_formed_row r =
     (case (row_field ''onboarding_data'' r, row_field ''email'' r) of
        (Some (StrCell d), Some (StrCell e)) \<Rightarrow>
          steps_of d \<noteq> None \<and> endswith e ''@example.com''
      | _ \<Rightarrow> False)"

text \<open>The workbook the script has built when it calls \<^verbatim>\<open>wb.save\<close>.\<close>

definition users_wb :: workbook where
  "users_wb = \<lparr>worksheets = [\<lparr>title = ''Users'', sheet_rows = header # rows\<rparr>], active_index = 0\<rparr>"


section \<open>What the script computes\<close>

lemma for_rows_wb:
  "ws m < length (worksheets (wb m)) \<Longrightarrow>
   wb (for_rows rs m) =
     (wb m)\<lparr>worksheets := (worksheets (wb m))[ws m :=
        (worksheets (wb m) ! ws m)\<lparr>sheet_rows := sheet_rows (worksheets (wb m) ! ws m) @ rs\<rparr>]\<rparr>"
proof (induction rs arbitrary: m)
  case Nil
  then show ?case by simp
next
  case (Cons r rs)
  have "ws (ws_append r m) < length (worksheets (wb (ws_append r m)))"
    using Cons.prems by (simp add: ws_append_def sheet_append_def)
  from Cons.IH [OF this] show ?case
    using Cons.prems by (simp add: ws_append_def sheet_append_def)
qed

lemma for_rows_rest:
  "ws (for_rows rs m) = ws m \<and> disk (for_rows rs m) = disk m \<and> stdout (for_rows rs m) = stdout m
   \<and> events (for_rows rs m) = events m @ map Appended rs"
  by (induction rs arbitrary: m) (simp_all add: ws_append_def)

lemma build_eq:
  "build w = \<lparr>wb = users_wb, ws = 0, disk = files w, stdout = [],
              events = map Appended (header # rows)\<rparr>"
proof -
  let ?m = "ws_append header (ws_set_title ''Users'' (init w))"
  have m: "?m = \<lparr>wb = \<lparr>worksheets = [\<lparr>title = ''Users'', sheet_rows = [header]\<rparr>], active_index = 0\<rparr>,
                 ws = 0, disk = files w, stdout = [], events = [Appended header]\<rparr>"
    by (simp add: ws_append_def ws_set_title_def init_def Workbook_def active_def
        sheet_append_def set_title_def)
  have "ws ?m < length (worksheets (wb ?m))" by (simp add: m)
  from for_rows_wb [OF this, of rows] for_rows_rest [of rows ?m]
  show ?thesis unfolding build_def by (simp add: m users_wb_def)
qed

lemma main_ok:
  "write_error w ''dummy_users.xlsx'' = None \<Longrightarrow>
   main w = Inr \<lparr>wb = users_wb, ws = 0, disk = (files w)(''dummy_users.xlsx'' \<mapsto> Book users_wb),
                stdout = [''dummy_users.xlsx created.''],
                events = map Appended (header # rows) @
                  [SaveCalled ''dummy_users.xlsx'', Saved ''dummy_users.xlsx'',
                   Printed ''dummy_users.xlsx created.'']\<rparr>"
  by (simp add: main_def save_def build_eq print_def)

lemma main_fail:
  "write_error w ''dummy_users.xlsx'' = Some e \<Longrightarrow>
   main w = Inl (e, \<lparr>wb = users_wb, ws = 0,
                disk = (files w)(''dummy_users.xlsx'' := write_leaves w ''dummy_users.xlsx''),
                stdout = [],
                events = map Appended (header # rows) @ [SaveCalled ''dummy_users.xlsx'']\<rparr>)"
  by (simp add: main_def save_def build_eq)

lemma succeeds_iff: "succeeds w = (write_error w ''dummy_users.xlsx'' = None)"
  by (cases "write_error w ''dummy_users.xlsx''") (simp_all add: succeeds_def main_ok main_fail)

lemma output_sheet_ok:
  "succeeds w \<Longrightarrow> output_sheet w = Some \<lparr>title = ''Users'', sheet_rows = header # rows\<rparr>"
  by (simp add: succeeds_iff output_sheet_def output_file_def main_ok final_def the_sheet_def users_wb_def)

lemma output_row_ok:
  "succeeds w \<Longrightarrow> output_row w n = sheet_row \<lparr>title = ''Users'', sheet_rows = header # rows\<rparr> n"
  by (simp add: output_row_def output_sheet_ok)

lemma succeeds_clean: "succeeds clean_world"
  by (simp add: succeeds_iff clean_world_def)

lemma final_main_wb: "wb (final (main w)) = users_wb"
  by (cases "write_error w ''dummy_users.xlsx''") (simp_all add: main_ok main_fail final_def)

lemma save_calls_appended: "save_calls (map Appended rs @ es) = save_calls es"
  by (induction rs) simp_all

lemma prints_follow_save_appended:
  "prints_follow_save b (map Appended rs @ es) = prints_follow_save b es"
  by (induction rs) simp_all

lemma appended_rows_appended: "appended_rows (map Appended rs @ es) = rs @ appended_rows es"
  by (induction rs) simp_all

lemma events_ok:
  "succeeds w \<Longrightarrow> events (final (main w)) = map Appended (header # rows) @
                  [SaveCalled ''dummy_users.xlsx'', Saved ''dummy_users.xlsx'',
                   Printed ''dummy_users.xlsx created.'']"
  by (simp add: succeeds_iff main_ok final_def)

lemma events_fail:
  "\<not> succeeds w \<Longrightarrow> events (final (main w)) = map Appended (header # rows) @
                  [SaveCalled ''dummy_users.xlsx'']"
  by (cases "write_error w ''dummy_users.xlsx''") (simp_all add: succeeds_iff main_fail final_def)

lemma stdout_ok: "succeeds w \<Longrightarrow> stdout (final (main w)) = [''dummy_users.xlsx created.'']"
  by (simp add: succeeds_iff main_ok final_def)

lemma final_main_save_calls: "save_calls (events (final (main w))) = [''dummy_users.xlsx'']"
  by (cases "succeeds w") (simp_all add: events_ok events_fail save_calls_appended del: list.map)

lemma output_file_ok: "succeeds w \<Longrightarrow> output_file w = Some users_wb"
  by (simp add: succeeds_iff output_file_def main_ok final_def)

lemma steps_of_rows:
  \<open>steps_of ''{"step1":true,"step2":true}'' = Some (True, True)\<close>
  \<open>steps_of ''{"step1":true,"step2":false}'' = Some (True, False)\<close>
  \<open>steps_of ''{"step1":false,"step2":false}'' = Some (False, False)\<close>
  by (simp_all add: steps_of_def json_loads_def is_space_def is_word_char_def punct_def
      word_value_def)

section \<open>The claims\<close>

text \<open>
  Claim C1. After a successful run, rows 2 to 5 of the sheet are, in order, the four literal
  user records of the data model, each \<^verbatim>\<open>pk\<close> a number, each \<^verbatim>\<open>id\<close> a string and each
  \<^verbatim>\<open>onboarding_complete\<close> a boolean.
\<close>

theorem rows_2_to_5:
  assumes "succeeds w"
  shows \<open>map (output_row w) [2, 3, 4, 5] =
    [Some [NumCell 1, StrCell ''1'', StrCell ''John Doe'', StrCell ''john@example.com'',
           StrCell ''Password123'', StrCell ''2023-01-01T10:00:00Z'', BoolCell True,
           StrCell ''{"step1":true,"step2":true}''],
     Some [NumCell 2, StrCell ''2'', StrCell ''Jane Smith'', StrCell ''jane@example.com'',
           StrCell ''Password456'', StrCell ''2023-02-15T12:30:00Z'', BoolCell False,
           StrCell ''{"step1":true,"step2":false}''],
     Some [NumCell 3, StrCell ''3'', StrCell ''Test User'', StrCell ''testuser@example.com'',
           StrCell ''TestPass789'', StrCell ''2023-03-10T09:15:00Z'', BoolCell True,
           StrCell ''{"step1":true,"step2":true}''],
     Some [NumCell 4, StrCell ''4'', StrCell ''Demo User'', StrCell ''demo@example.com'',
           StrCell ''DemoPass321'', StrCell ''2023-04-20T14:45:00Z'', BoolCell False,
           StrCell ''{"step1":false,"step2":false}'']]
    \<and> list_all (\<lambda>n. case output_row w n of
                        Some r \<Rightarrow> (case (row_field ''pk'' r, row_field ''id'' r,
                                          row_field ''onboarding_complete'' r) of
                                     (Some p, Some i, Some c) \<Rightarrow> is_num p \<and> is_str i \<and> is_bool c
                                   | _ \<Rightarrow> False)
                      | None \<Rightarrow> False) [2, 3, 4, 5]\<close>
  using assms
  by (simp add: output_row_ok sheet_row_def rows_def header_def row_field_def column_names_def)

theorem rows_2_to_5_witness:
  \<open>succeeds clean_world \<and> output_row clean_world 5 = 
     Some [NumCell 4, StrCell ''4'', StrCell ''Demo User'', StrCell ''demo@example.com'',
           StrCell ''DemoPass321'', StrCell ''2023-04-20T14:45:00Z'', BoolCell False,
           StrCell ''{"step1":false,"step2":false}'']\<close>
  using rows_2_to_5 [OF succeeds_clean] succeeds_clean by simp

text \<open>
  Claim C2. After a successful run, row 1 of the sheet is the header of eight column names, in
  order, and the header is the first row appended, the four data rows coming after it.
\<close>

theorem header_row_first:
  assumes "succeeds w"
  shows "output_row w 1 =
           Some [StrCell ''pk'', StrCell ''id'', StrCell ''name'', StrCell ''email'',
                 StrCell ''password'', StrCell ''created_at'', StrCell ''onboarding_complete'',
                 StrCell ''onboarding_data'']
         \<and> take 1 (appended_rows (events (final (main w)))) =
             [[StrCell ''pk'', StrCell ''id'', StrCell ''name'', StrCell ''email'',
               StrCell ''password'', StrCell ''created_at'', StrCell ''onboarding_complete'',
               StrCell ''onboarding_data'']]
         \<and> drop 1 (appended_rows (events (final (main w)))) = rows"
  using assms
  by (simp add: output_row_ok sheet_row_def header_def succeeds_iff main_ok final_def rows_def)

theorem header_row_first_witness:
  "succeeds clean_world \<and> output_row clean_world 1 =
           Some [StrCell ''pk'', StrCell ''id'', StrCell ''name'', StrCell ''email'',
                 StrCell ''password'', StrCell ''created_at'', StrCell ''onboarding_complete'',
                 StrCell ''onboarding_data'']"
  using header_row_first [OF succeeds_clean] succeeds_clean by simp

text \<open>
  Claim C3. Whatever the invocation finds, the workbook it builds has exactly one sheet, titled
  \<^verbatim>\<open>Users\<close>, and it is saved once, under the fixed name \<^verbatim>\<open>dummy_users.xlsx\<close>; when the
  write goes through, the file of that name holds that workbook.
\<close>

theorem one_sheet_named_Users:
  "(\<exists>s. worksheets (wb (final (main w))) = [s] \<and> title s = ''Users'')
   \<and> save_calls (events (final (main w))) = [''dummy_users.xlsx'']
   \<and> (succeeds w \<longrightarrow>
        output_file w = Some (wb (final (main w)))
        \<and> dom (disk (final (main w))) = insert ''dummy_users.xlsx'' (dom (files w))
        \<and> map_option title (output_sheet w) = Some ''Users'')"
  by (simp add: final_main_wb final_main_save_calls output_file_ok output_sheet_ok)
     (simp add: users_wb_def succeeds_iff main_ok final_def)

theorem one_sheet_named_Users_witness:
  "succeeds clean_world
   \<and> output_file clean_world = Some (wb (final (main clean_world)))
   \<and> map_option title (output_sheet clean_world) = Some ''Users''
   \<and> save_calls (events (final (main clean_world))) = [''dummy_users.xlsx'']"
  using one_sheet_named_Users [of clean_world] succeeds_clean by blast

text \<open>
  Claim C4, as stated: row 3 of the file is the first data row, that of John Doe. It is not:
  the header is row 1, so row 3 holds the second record.
\<close>

theorem row_3_not_first_data_row:
  \<open>succeeds clean_world \<and>
   output_row clean_world 3 \<noteq>
     Some [NumCell 1, StrCell ''1'', StrCell ''John Doe'', StrCell ''john@example.com'',
           StrCell ''Password123'', StrCell ''2023-01-01T10:00:00Z'', BoolCell True,
           StrCell ''{"step1":true,"step2":true}'']\<close>
  by (simp add: succeeds_clean output_row_ok sheet_row_def rows_def)

text \<open>
  Claim C4, amended: after a successful run the first data row is row 2, below the header, and
  it reads 1, "1", "John Doe", "john@example.com", "Password123", "2023-01-01T10:00:00Z", True
  and the text \<^verbatim>\<open>{"step1":true,"step2":true}\<close>.
\<close>

theorem first_data_row_is_row_2:
  assumes "succeeds w"
  shows \<open>output_row w 1 = Some header \<and>
    output_row w 2 =
     Some [NumCell 1, StrCell ''1'', StrCell ''John Doe'', StrCell ''john@example.com'',
           StrCell ''Password123'', StrCell ''2023-01-01T10:00:00Z'', BoolCell True,
           StrCell ''{"step1":true,"step2":true}'']\<close>
  using assms by (simp add: output_row_ok sheet_row_def rows_def)

theorem first_data_row_is_row_2_witness:
  \<open>succeeds clean_world \<and>
    output_row clean_world 2 =
     Some [NumCell 1, StrCell ''1'', StrCell ''John Doe'', StrCell ''john@example.com'',
           StrCell ''Password123'', StrCell ''2023-01-01T10:00:00Z'', BoolCell True,
           StrCell ''{"step1":true,"step2":true}'']\<close>
  using first_data_row_is_row_2 [OF succeeds_clean] succeeds_clean by simp

text \<open>
  Claim C5. A successful run writes exactly one line to standard output, the line contains
  \<^verbatim>\<open>dummy_users.xlsx created.\<close>, and no line is printed before a save has completed.
\<close>

theorem one_line_after_save:
  "prints_follow_save False (events (final (main w)))
   \<and> (succeeds w \<longrightarrow>
        stdout (final (main w)) = [''dummy_users.xlsx created.'']
        \<and> length (stdout (final (main w))) = 1
        \<and> list_all (\<lambda>l. contains l ''dummy_users.xlsx created.'') (stdout (final (main w))))"
proof (cases "succeeds w")
  case True
  then show ?thesis
    by (simp add: events_ok stdout_ok prints_follow_save_appended del: list.map)
next
  case False
  then show ?thesis
    by (simp add: events_fail prints_follow_save_appended del: list.map)
qed

theorem one_line_after_save_witness:
  "succeeds clean_world \<and> stdout (final (main clean_world)) = [''dummy_users.xlsx created.'']"
  using one_line_after_save [of clean_world] succeeds_clean by simp

text \<open>
  Claim C6. The workbook built does not depend on the arguments, the environment or the files
  found: any two invocations build the same one, two successful ones leave the same file, and
  running again over the files of a first run leaves the file as it was.
\<close>

theorem same_workbook_every_run:
  "wb (final (main w1)) = wb (final (main w2))
   \<and> (succeeds w1 \<and> succeeds w2 \<longrightarrow> output_file w1 = output_file w2)
   \<and> (succeeds w1 \<longrightarrow> succeeds (after w1) \<and> output_file (after w1) = output_file w1)"
  by (simp add: final_main_wb output_file_ok) (simp add: succeeds_iff after_def output_file_ok)

theorem same_workbook_every_run_witness:
  "succeeds clean_world \<and> succeeds (after clean_world)
   \<and> output_file (after clean_world) = output_file clean_world
   \<and> wb (final (main clean_world)) = wb (final (main readonly_world))"
  using same_workbook_every_run [of clean_world readonly_world] succeeds_clean by simp

text \<open>
  Claim C7. When the write fails, its error ends the run: the exit status is not zero, nothing
  has been printed and the save was called once and not again. When the write goes through,
  the exit status is zero. One of the two always is the case. What a failed write leaves at
  the path is not said.
\<close>

theorem write_failure_is_fatal:
  "(write_error w ''dummy_users.xlsx'' = Some e \<longrightarrow>
      (\<exists>m. main w = Inl (e, m) \<and> stdout m = []
           \<and> save_calls (events m) = [''dummy_users.xlsx''])
      \<and> exit_status (main w) \<noteq> 0)
   \<and> (succeeds w \<longrightarrow> exit_status (main w) = 0)
   \<and> (succeeds w \<or> (\<exists>e. write_error w ''dummy_users.xlsx'' = Some e))"
proof (cases "write_error w ''dummy_users.xlsx''")
  case None
  then show ?thesis by (simp add: succeeds_iff main_ok exit_status_def)
next
  case (Some e')
  then show ?thesis
    by (simp add: succeeds_iff main_fail exit_status_def save_calls_appended del: list.map)
qed

theorem write_failure_is_fatal_witness:
  "write_error readonly_world ''dummy_users.xlsx'' = Some PermissionError
   \<and> exit_status (main readonly_world) \<noteq> 0
   \<and> stdout (final (main readonly_world)) = []
   \<and> write_error full_disk_world ''dummy_users.xlsx'' = Some DiskFull
   \<and> exit_status (main full_disk_world) \<noteq> 0
   \<and> stdout (final (main full_disk_world)) = []
   \<and> succeeds clean_world \<and> exit_status (main clean_world) = 0"
  using write_failure_is_fatal [of readonly_world PermissionError]
    write_failure_is_fatal [of full_disk_world DiskFull]
    write_failure_is_fatal [of clean_world PermissionError] succeeds_clean
  by (auto simp: readonly_world_def full_disk_world_def final_def)

text \<open>
  Claim C8. For every data row \<open>i\<close> from 1 to 4 of the sheet produced (it is row \<open>i + 1\<close>), the
  \<^verbatim>\<open>pk\<close> cell is the number \<open>i\<close> and the \<^verbatim>\<open>id\<close> cell is the decimal string of that number.
\<close>

theorem pk_sequential_id_mirrors:
  assumes "succeeds w"
  shows "\<forall>i\<in>{1..4}. \<exists>r. output_row w (i + 1) = Some r
           \<and> row_field ''pk'' r = Some (NumCell (int i))
           \<and> row_field ''id'' r = Some (StrCell (str_int (int i)))"
proof
  fix i :: nat
  assume "i \<in> {1..4}"
  then have "i = 1 \<or> i = 2 \<or> i = 3 \<or> i = 4"
    by (simp only: atLeastAtMost_iff) arith
  then consider "i = 1" | "i = 2" | "i = 3" | "i = 4"
    by blast
  then show "\<exists>r. output_row w (i + 1) = Some r
           \<and> row_field ''pk'' r = Some (NumCell (int i))
           \<and> row_field ''id'' r = Some (StrCell (str_int (int i)))"
    using assms
    by cases
      (simp_all add: output_row_ok sheet_row_def rows_def row_field_def column_names_def
        str_int_def digits.simps digit_char_def)
qed

theorem pk_sequential_id_mirrors_witness:
  "succeeds clean_world \<and> (3::nat) \<in> {1..4}
   \<and> (\<exists>r. output_row clean_world 4 = Some r
           \<and> row_field ''pk'' r = Some (NumCell 3)
           \<and> row_field ''id'' r = Some (StrCell ''3''))"
proof -
  have three: "(3::nat) \<in> {1..4}" by simp
  have "str_int 3 = ''3''" by (simp add: str_int_def digits.simps digit_char_def)
  with bspec [OF pk_sequential_id_mirrors [OF succeeds_clean] three] succeeds_clean three
  show ?thesis by simp
qed

text \<open>
  Claim C9. In each of the four data rows, \<^verbatim>\<open>onboarding_complete\<close> is the conjunction of the
  booleans under \<^verbatim>\<open>step1\<close> and \<^verbatim>\<open>step2\<close> in the JSON text of \<^verbatim>\<open>onboarding_data\<close>.
\<close>

theorem onboarding_flag_is_conjunction:
  "list_all flag_matches_steps rows"
  by (simp add: rows_def flag_matches_steps_def row_field_def column_names_def steps_of_rows)

text \<open>
  Claim C10. In each of the four data rows, \<^verbatim>\<open>onboarding_data\<close> is a JSON object with exactly
  the two keys \<^verbatim>\<open>step1\<close> and \<^verbatim>\<open>step2\<close>, each with a boolean value, and \<^verbatim>\<open>email\<close> ends with
  \<^verbatim>\<open>@example.com\<close>.
\<close>

theorem onboarding_json_and_email_shape:
  "list_all well_formed_row rows"
  by (simp add: rows_def well_formed_row_def row_field_def column_names_def steps_of_rows
      endswith_def)

end
